theory Spec2Isabelle
  imports Complex_Main "HOL-Library.AList"
begin

section \<open>Data model\<close>

text \<open>
  The notebook \<^verbatim>\<open>Fluo_2D_nuclei_segmentation.ipynb\<close> works on NumPy arrays, pandas
  tables and Python dictionaries. A 2D array is a list of rows of integers (every row of
  the same length, see \<open>rect\<close>), a stack of channels is a list of such arrays, a
  dictionary is an association list in insertion order (\<open>AList.update\<close> overwrites a
  key where it stands and appends a new one, as a Python \<^verbatim>\<open>dict\<close> does) or a map
  where nothing reads the order. Exceptions are values of \<open>error\<close>.
\<close>

datatype error = ValueError | ZeroDivisionError | KeyError | IndexError

type_synonym matrix = "int list list"

definition nrows :: "'a list list \<Rightarrow> nat" where
  "nrows M = length M"

definition ncols :: "'a list list \<Rightarrow> nat" where
  "ncols M = (case M of [] \<Rightarrow> 0 | r # _ \<Rightarrow> length r)"

text \<open>A NumPy 2D array is rectangular; a list of rows has to be told so.\<close>

definition rect :: "'a list list \<Rightarrow> bool" where
  "rect M = (\<forall>r \<in> set M. length r = ncols M)"

text \<open>\<^verbatim>\<open>M[i, j]\<close> for indices in range.\<close>

definition px :: "'a list list \<Rightarrow> nat \<times> nat \<Rightarrow> 'a" where
  "px M p = M ! fst p ! snd p"

text \<open>The index pairs of an \<open>h\<close> by \<open>w\<close> array in row-major (C, scan) order.\<close>

definition pixels :: "nat \<Rightarrow> nat \<Rightarrow> (nat \<times> nat) list" where
  "pixels h w = concat (map (\<lambda>i. map (\<lambda>j. (i, j)) [0..<w]) [0..<h])"

definition pixels_of :: "'a list list \<Rightarrow> (nat \<times> nat) list" where
  "pixels_of M = pixels (nrows M) (ncols M)"

text \<open>An array given by its entries: what \<^verbatim>\<open>C[mask] = v\<close> and friends produce.\<close>

definition tabulate :: "nat \<Rightarrow> nat \<Rightarrow> (nat \<times> nat \<Rightarrow> 'a) \<Rightarrow> 'a list list" where
  "tabulate h w f = map (\<lambda>i. map (\<lambda>j. f (i, j)) [0..<w]) [0..<h]"

text \<open>\<^verbatim>\<open>M.ravel()\<close>: the entries in scan order.\<close>

definition ravel :: "'a list list \<Rightarrow> 'a list" where
  "ravel M = concat M"

text \<open>\<^verbatim>\<open>np.unique(xs)\<close>: the distinct values, ascending.\<close>

definition np_unique :: "int list \<Rightarrow> int list" where
  "np_unique xs = sort (remdups xs)"

text \<open>\<^verbatim>\<open>np.max\<close> raises \<^verbatim>\<open>ValueError\<close> on an array with no entry.\<close>

definition np_max :: "int list \<Rightarrow> error + int" where
  "np_max xs = (case xs of [] \<Rightarrow> Inl ValueError | x # ys \<Rightarrow> Inr (fold max ys x))"

section \<open>Contrast limits\<close>




section \<open>Stain registry\<close>

text \<open>
  \<^verbatim>\<open>
  stain_dict = {k.upper(): [item.upper() ... for item in v] for k, v in stain_dict.items()}
  stain_df = pd.DataFrame.from_dict(stain_dict, orient='index', columns=['Marker', 'Color'])
  stain_df.index.name = 'Condition'
  if 'NUCLEI' not in stain_df.index:
      print('No nuclei condition!')
  \<close>
  A row of the stain table is its condition (the index) with the marker and the colour.
  \<open>upper\<close> is \<^verbatim>\<open>str.upper\<close> on ASCII letters. The cell's result is the table and the
  lines it printed.
\<close>

type_synonym stain_df = "(string \<times> string \<times> string) list"

definition upper_char :: "char \<Rightarrow> char" where
  "upper_char c =
     (case map_of (zip ''abcdefghijklmnopqrstuvwxyz'' ''ABCDEFGHIJKLMNOPQRSTUVWXYZ'') c of
        Some u \<Rightarrow> u
      | None \<Rightarrow> c)"

definition upper :: "string \<Rightarrow> string" where
  "upper s = map upper_char s"

definition build_stain_df :: "(string \<times> string \<times> string) list \<Rightarrow> stain_df" where
  "build_stain_df stain_dict =
     fold (\<lambda>(k, m, c). AList.update (upper k) (upper m, upper c)) stain_dict []"

definition df_index :: "('k \<times> 'v) list \<Rightarrow> 'k list" where
  "df_index df = map fst df"

definition nuclei_check :: "stain_df \<Rightarrow> error + (stain_df \<times> string list)" where
  "nuclei_check stain_df =
     Inr (stain_df,
          if ''NUCLEI'' \<notin> set (df_index stain_df) then [''No nuclei condition!''] else [])"

definition stain_registry ::
  "(string \<times> string \<times> string) list \<Rightarrow> error + (stain_df \<times> string list)" where
  "stain_registry stain_dict = nuclei_check (build_stain_df stain_dict)"

text \<open>\<^verbatim>\<open>stain_df.index.get_loc('NUCLEI')\<close>, which the quantification cell runs later.\<close>

fun get_loc :: "'k list \<Rightarrow> 'k \<Rightarrow> error + nat" where
  "get_loc [] k = Inl KeyError"
| "get_loc (x # xs) k =
     (if x = k then Inr 0 else (case get_loc xs k of Inl e \<Rightarrow> Inl e | Inr n \<Rightarrow> Inr (Suc n)))"

section \<open>Acquisition setup\<close>

text \<open>
  The setup cell. The calibration table \<^verbatim>\<open>stain_complete_df\<close> and the CSV file are keyed
  by (Condition, Marker, Color); both are read by key only, so they are maps, and the
  file that is absent is \<open>None\<close>. \<^verbatim>\<open>df.loc[idx]\<close> raises \<^verbatim>\<open>KeyError\<close> on a missing
  key. What the user chooses in the viewer is the function \<open>gui\<close> from a layer's name
  to its contrast limits and gamma.
\<close>

type_synonym key = "string \<times> string \<times> string"

record calib =
  Cont_min :: int
  Cont_max :: int
  Gamma :: real

record setup_state =
  stain_complete_df :: "key \<rightharpoonup> calib"
  use_setup :: bool
  recalibrated :: bool
  setup_csv :: "(key \<rightharpoonup> calib) option"

definition loc :: "('k \<rightharpoonup> 'v) \<Rightarrow> 'k \<Rightarrow> error + 'v" where
  "loc df k = (case df k of None \<Rightarrow> Inl KeyError | Some v \<Rightarrow> Inr v)"

text \<open>
  \<^verbatim>\<open>
  for idx in stain_complete_df.index:
      if idx in stain_setup_df.index:
          stain_complete_df.loc[idx] = stain_setup_df.loc[idx]
      else:
          use_setup = False
  \<close>
\<close>

fun load_setup ::
  "(key \<rightharpoonup> calib) \<Rightarrow> key list \<Rightarrow> (key \<rightharpoonup> calib) \<times> bool \<Rightarrow> error + ((key \<rightharpoonup> calib) \<times> bool)" where
  "load_setup stain_setup_df [] st = Inr st"
| "load_setup stain_setup_df (idx # rest) (df, use) =
     (if idx \<in> dom stain_setup_df
      then (case loc stain_setup_df idx of
              Inl e \<Rightarrow> Inl e
            | Inr row \<Rightarrow> load_setup stain_setup_df rest (df(idx \<mapsto> row), use))
      else load_setup stain_setup_df rest (df, False))"

definition layer_name :: "key \<Rightarrow> string" where
  "layer_name idx = fst idx @ '' ('' @ fst (snd idx) @ '')''"

text \<open>The interactive branch: every row takes the viewer's values, then the file is written.\<close>

definition recalibrate ::
  "(string \<Rightarrow> calib) \<Rightarrow> key list \<Rightarrow> (key \<rightharpoonup> calib) \<Rightarrow> (key \<rightharpoonup> calib)" where
  "recalibrate gui keys df = fold (\<lambda>idx d. d(idx \<mapsto> gui (layer_name idx))) keys df"

definition write_setup ::
  "(key \<rightharpoonup> calib) option \<Rightarrow> key list \<Rightarrow> (key \<rightharpoonup> calib) \<Rightarrow> (key \<rightharpoonup> calib)" where
  "write_setup csv keys df =
     (case csv of
        Some stain_setup_df \<Rightarrow> fold (\<lambda>idx s. s(idx := df idx)) keys stain_setup_df
      | None \<Rightarrow> df |` set keys)"

definition setup_cell ::
  "bool \<Rightarrow> (key \<rightharpoonup> calib) option \<Rightarrow> key list \<Rightarrow> (string \<Rightarrow> calib) \<Rightarrow> error + setup_state" where
  "setup_cell use_setup0 csv keys gui =
     (let df0 = fold (\<lambda>idx d. d(idx \<mapsto> \<lparr>Cont_min = 0, Cont_max = 255, Gamma = 1\<rparr>)) keys Map.empty;
          loaded = (case csv of
                      Some stain_setup_df \<Rightarrow>
                        if use_setup0 then load_setup stain_setup_df keys (df0, use_setup0)
                        else Inr (df0, use_setup0)
                    | None \<Rightarrow> Inr (df0, use_setup0))
      in case loaded of
           Inl e \<Rightarrow> Inl e
         | Inr (df1, use) \<Rightarrow>
             if \<not> use \<or> csv = None
             then let df2 = recalibrate gui keys df1
                  in Inr \<lparr>stain_complete_df = df2, use_setup = use, recalibrated = True,
                          setup_csv = Some (write_setup csv keys df2)\<rparr>
             else Inr \<lparr>stain_complete_df = df1, use_setup = use, recalibrated = False,
                       setup_csv = csv\<rparr>)"

section \<open>Quantification\<close>

text \<open>
  One row of \<^verbatim>\<open>labels_dict\<close>: the seven entries of the list the cell stores per marker.
  Positions and areas are binary64 in the notebook and reals here; \<^verbatim>\<open>np.mean\<close> of an
  empty selection is NaN there and \<open>0\<close> here. The theorems below read the counts and
  the label tuples only.
\<close>

record labels_row =
  Condition :: string
  Color :: string
  Number :: int
  Shared_labels :: "int list"
  Mean_positions :: "(real \<times> real) list"
  Nuclei_size :: "real list"
  Cell_size :: "real list"

text \<open>\<^verbatim>\<open>y, x = np.where(M == n)\<close>: the index pairs, in scan order.\<close>

definition np_where :: "matrix \<Rightarrow> int \<Rightarrow> (nat \<times> nat) list" where
  "np_where M n = filter (\<lambda>p. px M p = n) (pixels_of M)"

definition np_mean :: "real list \<Rightarrow> real" where
  "np_mean xs = sum_list xs / real (length xs)"

definition mean_position :: "matrix \<Rightarrow> real \<Rightarrow> real \<Rightarrow> int \<Rightarrow> real \<times> real" where
  "mean_position im_segmented r_X r_Y n =
     (let yx = np_where im_segmented n
      in (np_mean (map (\<lambda>p. real (snd p) * r_X) yx), np_mean (map (\<lambda>p. real (fst p) * r_Y) yx)))"

definition nucleus_size :: "matrix \<Rightarrow> real \<Rightarrow> real \<Rightarrow> int \<Rightarrow> real" where
  "nucleus_size im_segmented r_X r_Y n = real (length (np_where im_segmented n)) * r_X * r_Y"

text \<open>
  The row of the nuclei channel:
  \<^verbatim>\<open>
  for n in range(1, int(np.max(im_segmented)) + 1): ...
  labels_dict[marker] = [cond, color, int(np.max(im_segmented)), (), positions, sizes, ()]
  \<close>
\<close>

definition nuclei_row :: "string \<Rightarrow> string \<Rightarrow> matrix \<Rightarrow> real \<Rightarrow> real \<Rightarrow> error + labels_row" where
  "nuclei_row cond color im_segmented r_X r_Y =
     (case np_max (ravel im_segmented) of
        Inl e \<Rightarrow> Inl e
      | Inr m \<Rightarrow>
          Inr \<lparr>Condition = cond, Color = color, Number = m, Shared_labels = [],
               Mean_positions = map (mean_position im_segmented r_X r_Y) [1..m],
               Nuclei_size = map (nucleus_size im_segmented r_X r_Y) [1..m],
               Cell_size = []\<rparr>)"

text \<open>
  The row of a marker channel \<open>i\<close>, from its assigned label matrix
  \<^verbatim>\<open>im_assigned[:, :, i]\<close>:
  \<^verbatim>\<open>
  for n in np.unique(im_assigned[:, :, i])[1:]: ...
  labels_dict[marker] = [cond, color,
      len(np.unique(im_assigned[:, :, i])[1:]),
      tuple(np.unique(im_assigned[1:, :, i])[1:]),
      tuple(positions), tuple(nuclei_sizes), tuple(cell_sizes)]
  \<close>
  \<^verbatim>\<open>[1:]\<close> is \<open>drop 1\<close>, on the sorted values as on the rows.
\<close>

definition marker_row :: "string \<Rightarrow> string \<Rightarrow> matrix \<Rightarrow> matrix \<Rightarrow> real \<Rightarrow> real \<Rightarrow> labels_row" where
  "marker_row cond color im_segmented assigned r_X r_Y =
     (let ns = drop 1 (np_unique (ravel assigned))
      in \<lparr>Condition = cond, Color = color,
          Number = int (length (drop 1 (np_unique (ravel assigned)))),
          Shared_labels = drop 1 (np_unique (ravel (drop 1 assigned))),
          Mean_positions = map (mean_position im_segmented r_X r_Y) ns,
          Nuclei_size = map (nucleus_size im_segmented r_X r_Y) ns,
          Cell_size = map (\<lambda>n. real (length (np_where assigned n)) * r_X * r_Y) ns\<rparr>)"

text \<open>
  The whole cell: the nuclei row first, then one row per other channel, stored under the
  channel's marker. \<^verbatim>\<open>labels_df\<close> keeps the dictionary's order.
\<close>

type_synonym labels_df = "(string \<times> labels_row) list"

definition quantification ::
  "stain_df \<Rightarrow> matrix \<Rightarrow> matrix list \<Rightarrow> real \<Rightarrow> real \<Rightarrow> error + labels_df" where
  "quantification stain_df im_segmented im_assigned r_X r_Y =
     (case get_loc (df_index stain_df) ''NUCLEI'' of
        Inl e \<Rightarrow> Inl e
      | Inr i_nuc \<Rightarrow>
          (case nuclei_row ''NUCLEI'' (snd (snd (stain_df ! i_nuc))) im_segmented r_X r_Y of
             Inl e \<Rightarrow> Inl e
           | Inr nuc \<Rightarrow>
               if length stain_df < length im_assigned then Inl IndexError
               else Inr (fold (\<lambda>i d.
                      if i \<noteq> i_nuc
                      then AList.update (fst (snd (stain_df ! i)))
                             (marker_row (fst (stain_df ! i)) (snd (snd (stain_df ! i)))
                                im_segmented (im_assigned ! i) r_X r_Y) d
                      else d)
                    [0..<length im_assigned]
                    [(fst (snd (stain_df ! i_nuc)), nuc)])))"

section \<open>Spreadsheet export\<close>

text \<open>
  The rows of the sheet \<^verbatim>\<open>NUCLEI\<close>:
  \<^verbatim>\<open>
  for k in range(1, int(labels_df['Number'][0])):
      row = [labels_df['Mean positions [um]'][0][k-1], labels_df['Nuclei size [um2]'][0][k-1]]
      row = [row[0][0], row[0][1], row[1]]
      for i, marker in enumerate(labels_df.index):
          if labels_df['Condition'][i] != 'NUCLEI':
              shared = labels_df['Shared labels'][i]
              if k in shared:
                  idx = list(shared).index(k)
                  row.append(marker)
                  row.append(labels_df['Cell size [um2]'][marker][idx])
              else:
                  row.extend(['', ''])
      xlsx_dict[k] = row
  \<close>
  A cell of the sheet holds a number or a string. Reading a tuple past its end raises
  \<^verbatim>\<open>IndexError\<close>.
\<close>

datatype cell = Num real | Str string

definition tuple_get :: "'a list \<Rightarrow> nat \<Rightarrow> error + 'a" where
  "tuple_get xs i = (if i < length xs then Inr (xs ! i) else Inl IndexError)"

fun list_index :: "'a list \<Rightarrow> 'a \<Rightarrow> nat" where
  "list_index [] k = 0"
| "list_index (x # xs) k = (if x = k then 0 else Suc (list_index xs k))"

fun marker_cells :: "labels_df \<Rightarrow> int \<Rightarrow> error + cell list" where
  "marker_cells [] k = Inr []"
| "marker_cells ((marker, r) # rest) k =
     (if Condition r \<noteq> ''NUCLEI''
      then (if k \<in> set (Shared_labels r)
            then (case tuple_get (Cell_size r) (list_index (Shared_labels r) k) of
                    Inl e \<Rightarrow> Inl e
                  | Inr a \<Rightarrow>
                      (case marker_cells rest k of
                         Inl e \<Rightarrow> Inl e
                       | Inr cs \<Rightarrow> Inr (Str marker # Num a # cs)))
            else (case marker_cells rest k of
                    Inl e \<Rightarrow> Inl e
                  | Inr cs \<Rightarrow> Inr (Str [] # Str [] # cs)))
      else marker_cells rest k)"

definition xlsx_row :: "labels_df \<Rightarrow> int \<Rightarrow> error + cell list" where
  "xlsx_row labels_df k =
     (case labels_df of
        [] \<Rightarrow> Inl KeyError
      | (m0, r0) # _ \<Rightarrow>
          (case tuple_get (Mean_positions r0) (nat (k - 1)) of
             Inl e \<Rightarrow> Inl e
           | Inr pos \<Rightarrow>
               (case tuple_get (Nuclei_size r0) (nat (k - 1)) of
                  Inl e \<Rightarrow> Inl e
                | Inr sz \<Rightarrow>
                    (case marker_cells labels_df k of
                       Inl e \<Rightarrow> Inl e
                     | Inr cs \<Rightarrow> Inr (Num (fst pos) # Num (snd pos) # Num sz # cs)))))"

fun xlsx_rows :: "labels_df \<Rightarrow> int list \<Rightarrow> error + (int \<times> cell list) list" where
  "xlsx_rows labels_df [] = Inr []"
| "xlsx_rows labels_df (k # ks) =
     (case xlsx_row labels_df k of
        Inl e \<Rightarrow> Inl e
      | Inr row \<Rightarrow>
          (case xlsx_rows labels_df ks of
             Inl e \<Rightarrow> Inl e
           | Inr rows \<Rightarrow> Inr ((k, row) # rows)))"

definition xlsx_dict :: "labels_df \<Rightarrow> error + (int \<times> cell list) list" where
  "xlsx_dict labels_df =
     (case labels_df of
        [] \<Rightarrow> Inl KeyError
      | (m0, r0) # _ \<Rightarrow> xlsx_rows labels_df [1..Number r0 - 1])"

section \<open>Masks and connected components\<close>

definition in_range :: "'a list list \<Rightarrow> nat \<times> nat \<Rightarrow> bool" where
  "in_range M p = (fst p < nrows M \<and> snd p < ncols M)"

definition shape :: "'a list list \<Rightarrow> nat \<times> nat" where
  "shape M = (nrows M, ncols M)"

text \<open>\<^verbatim>\<open>M[mask] = v\<close> for a boolean array \<^verbatim>\<open>mask\<close> of the shape of \<^verbatim>\<open>M\<close>, given by its entries.\<close>

definition mask_set :: "matrix \<Rightarrow> (nat \<times> nat \<Rightarrow> bool) \<Rightarrow> int \<Rightarrow> matrix" where
  "mask_set M msk v = tabulate (nrows M) (ncols M) (\<lambda>p. if msk p then v else px M p)"

text \<open>
  Two pixels are neighbours under the cross-shaped structuring element (SciPy's default,
  4-connectivity) when they differ by one step along one axis, and under the full 3 by 3
  element (\<^verbatim>\<open>np.ones((3, 3))\<close>, 8-connectivity) when they differ by at most one step along
  each axis.
\<close>

definition adjacent :: "bool \<Rightarrow> nat \<times> nat \<Rightarrow> nat \<times> nat \<Rightarrow> bool" where
  "adjacent full p q =
     (let di = \<bar>int (fst p) - int (fst q)\<bar>; dj = \<bar>int (snd p) - int (snd q)\<bar>
      in if full then di \<le> 1 \<and> dj \<le> 1 \<and> p \<noteq> q else di + dj = 1)"

text \<open>The nonzero pixels, in scan order, and the neighbour pairs among them.\<close>

definition foreground :: "matrix \<Rightarrow> (nat \<times> nat) list" where
  "foreground M = filter (\<lambda>p. px M p \<noteq> 0) (pixels_of M)"

definition edges :: "bool \<Rightarrow> matrix \<Rightarrow> ((nat \<times> nat) \<times> (nat \<times> nat)) list" where
  "edges full M =
     concat (map (\<lambda>p. map (\<lambda>q. (p, q)) (filter (adjacent full p) (foreground M))) (foreground M))"

text \<open>
  Two foreground pixels are connected when a chain of neighbouring foreground pixels
  joins them; the component of a pixel is the list of the pixels connected to it, in scan
  order.
\<close>

definition connected :: "bool \<Rightarrow> matrix \<Rightarrow> nat \<times> nat \<Rightarrow> nat \<times> nat \<Rightarrow> bool" where
  "connected full M p q = (p = q \<or> (p, q) \<in> (set (edges full M))\<^sup>+)"

definition component :: "bool \<Rightarrow> matrix \<Rightarrow> nat \<times> nat \<Rightarrow> (nat \<times> nat) list" where
  "component full M p = filter (connected full M p) (foreground M)"

text \<open>
  \<^verbatim>\<open>scipy.ndimage.label(input, structure)\<close> is a library function; this is its documented
  contract. Every nonzero entry of the input is foreground; the result is the array of
  the same shape in which each connected component of the foreground carries one number
  (background 0), and the number of components. The components are numbered from 1 in the
  order in which the scan meets their first pixel (such a pixel is a seed).
\<close>

definition seeds :: "bool \<Rightarrow> matrix \<Rightarrow> (nat \<times> nat) list" where
  "seeds full M = filter (\<lambda>p. hd (component full M p) = p) (foreground M)"

definition label :: "bool \<Rightarrow> matrix \<Rightarrow> matrix \<times> nat" where
  "label full M =
     (tabulate (nrows M) (ncols M)
        (\<lambda>p. if px M p = 0 then 0
             else 1 + int (list_index (seeds full M) (hd (component full M p)))),
      length (seeds full M))"

section \<open>Small-island removal\<close>

text \<open>
  \<^verbatim>\<open>
  def remove_small_islands(binary_matrix, area_threshold):
      labeled_array, num_features = label(binary_matrix)
      for i in range(1, num_features + 1):
          component = (labeled_array == i)
          if component.sum() < area_threshold:
              binary_matrix[component] = 0
      return binary_matrix
  \<close>
  The array is updated in place and returned; the model returns the updated array.
\<close>

definition remove_small_islands :: "matrix \<Rightarrow> int \<Rightarrow> matrix" where
  "remove_small_islands binary_matrix area_threshold =
     (case label False binary_matrix of
        (labeled_array, num_features) \<Rightarrow>
          fold (\<lambda>i bm.
                  let component = (\<lambda>p. px labeled_array p = i)
                  in if int (length (filter component (pixels_of labeled_array))) < area_threshold
                     then mask_set bm component 0
                     else bm)
               [1..int num_features] binary_matrix)"

section \<open>Overlap-based label assignment\<close>

text \<open>
  \<^verbatim>\<open>
  def assign_labels(A, B, connectivity=1):
      structure = np.ones((3, 3)) if connectivity == 2 else None
      labeled_A, num_features = label(A, structure=structure)
      C = np.zeros_like(A)
      for i in range(1, num_features + 1):
          mask = labeled_A == i
          overlapping_labels = np.unique(B[mask & (B > 0)])
          C[mask] = overlapping_labels[0] if len(overlapping_labels) > 0 else 0
      return C
  \<close>
  \<^verbatim>\<open>B[mask & (B > 0)]\<close> needs \<^verbatim>\<open>B\<close> of the shape of \<^verbatim>\<open>A\<close>: NumPy raises in the loop
  body otherwise, so with at least one component. The entries are integers of one width
  in the notebook (\<^verbatim>\<open>int32\<close>) and unbounded here.
\<close>

definition assign_labels :: "matrix \<Rightarrow> matrix \<Rightarrow> int \<Rightarrow> error + matrix" where
  "assign_labels A B connectivity =
     (case label (connectivity = 2) A of
        (labeled_A, num_features) \<Rightarrow>
          if 0 < num_features \<and> map length B \<noteq> map length A then Inl ValueError
          else Inr (fold (\<lambda>i C.
                  let mask = (\<lambda>p. px labeled_A p = i);
                      overlapping_labels =
                        np_unique (map (px B) (filter (\<lambda>p. mask p \<and> 0 < px B p) (pixels_of A)))
                  in mask_set C mask (case overlapping_labels of [] \<Rightarrow> 0 | l # _ \<Rightarrow> l))
               [1..int num_features]
               (tabulate (nrows A) (ncols A) (\<lambda>p. 0))))"

text \<open>
  What the specification describes instead: the first nonzero label of \<open>B\<close> met in scan
  order among the pixels of the component.
\<close>

definition first_overlap_scan :: "bool \<Rightarrow> matrix \<Rightarrow> matrix \<Rightarrow> nat \<times> nat \<Rightarrow> int" where
  "first_overlap_scan full A B p =
     (case filter (\<lambda>l. l \<noteq> 0) (map (px B) (component full A p)) of [] \<Rightarrow> 0 | l # _ \<Rightarrow> l)"

section \<open>Properties of the contrast limits\<close>





section \<open>Properties of the stain registry\<close>

text \<open>
  Claim C8. When the stain table has no condition \<^verbatim>\<open>NUCLEI\<close>, the stain-registry cell
  raises nothing: it returns the table as it was built and has printed the one warning
  line.
\<close>

theorem nuclei_check_warns_only:
  "''NUCLEI'' \<notin> set (df_index (build_stain_df d)) \<Longrightarrow>
   stain_registry d = Inr (build_stain_df d, [''No nuclei condition!''])"
  by (simp add: stain_registry_def nuclei_check_def)

lemma build_stain_df_example:
  "build_stain_df [(''macro'', ''f4_80'', ''Red''), (''M2'', ''CD206'', ''Green'')] =
     [(''MACRO'', ''F4_80'', ''RED''), (''M2'', ''CD206'', ''GREEN'')]"
  by (simp add: build_stain_df_def upper_def upper_char_def)

theorem nuclei_check_warns_only_witness:
  "''NUCLEI'' \<notin> set (df_index (build_stain_df [(''macro'', ''f4_80'', ''Red''), (''M2'', ''CD206'', ''Green'')])) \<and>
   stain_registry [(''macro'', ''f4_80'', ''Red''), (''M2'', ''CD206'', ''Green'')] =
     Inr ([(''MACRO'', ''F4_80'', ''RED''), (''M2'', ''CD206'', ''GREEN'')], [''No nuclei condition!''])"
proof -
  have h: "''NUCLEI'' \<notin> set (df_index (build_stain_df [(''macro'', ''f4_80'', ''Red''), (''M2'', ''CD206'', ''Green'')]))"
    by (simp add: build_stain_df_example df_index_def)
  show ?thesis
    using h nuclei_check_warns_only[OF h] by (simp add: build_stain_df_example)
qed

text \<open>With the condition present nothing is printed; without it, the later lookup raises.\<close>

lemma nuclei_check_silent:
  "''NUCLEI'' \<in> set (df_index df) \<Longrightarrow> nuclei_check df = Inr (df, [])"
  by (simp add: nuclei_check_def)

lemma get_loc_KeyError: "k \<notin> set xs \<Longrightarrow> get_loc xs k = Inl KeyError"
  by (induction xs) auto

section \<open>Properties of the acquisition setup\<close>





text \<open>With the flag off, the recalibration always runs.\<close>

lemma setup_cell_flag_off:
  "\<exists>st. setup_cell False csv keys gui = Inr st \<and> recalibrated st"
  by (cases csv) (simp_all add: setup_cell_def Let_def)

section \<open>Properties of the quantification and of the export\<close>

text \<open>
  Claim C5. The count of a marker's row is taken over the whole assigned label matrix,
  its tuple of shared labels over the matrix without its first row
  (\<^verbatim>\<open>im_assigned[1:, :, i]\<close>): a label that only occurs in the first row is counted
  and is not listed. On the assigned matrix \<open>[[1, 0], [0, 0]]\<close> the row records one
  object and no shared label.
\<close>

theorem marker_row_shared_skips_first_row:
  "Number (marker_row ''M2'' ''GREEN'' [[1, 0], [0, 0]] [[1, 0], [0, 0]] 1 1) = 1 \<and>
   Shared_labels (marker_row ''M2'' ''GREEN'' [[1, 0], [0, 0]] [[1, 0], [0, 0]] 1 1) = []"
  by (simp add: marker_row_def np_unique_def ravel_def)

text \<open>The count itself drops the smallest value, which is the background only if there is one.\<close>

lemma marker_row_count_no_background:
  "Number (marker_row ''M2'' ''GREEN'' [[1, 1]] [[1, 1]] 1 1) = 0"
  by (simp add: marker_row_def np_unique_def ravel_def)

lemma xlsx_rows_keys: "xlsx_rows df ks = Inr rows \<Longrightarrow> map fst rows = ks"
  by (induction ks arbitrary: rows) (auto split: sum.splits)

text \<open>The sheet's keys stop one short of the nucleus count.\<close>

lemma xlsx_dict_keys:
  "xlsx_dict df = Inr rows \<Longrightarrow> map fst rows = [1..Number (snd (hd df)) - 1]"
  by (auto simp add: xlsx_dict_def split: list.splits dest: xlsx_rows_keys)

lemma quantification_example:
  "quantification [(''M2'', ''CD206'', ''GREEN''), (''NUCLEI'', ''DAPI'', ''BLUE'')]
     [[1, 0, 2], [1, 0, 2]] [[[0, 0, 2], [0, 0, 2]], [[0, 0, 0], [0, 0, 0]]] 1 1 =
   Inr [(''DAPI'', \<lparr>Condition = ''NUCLEI'', Color = ''BLUE'', Number = 2, Shared_labels = [],
                    Mean_positions = [(0, 1 / 2), (2, 1 / 2)], Nuclei_size = [2, 2],
                    Cell_size = []\<rparr>),
        (''CD206'', \<lparr>Condition = ''M2'', Color = ''GREEN'', Number = 1, Shared_labels = [2],
                     Mean_positions = [(2, 1 / 2)], Nuclei_size = [2], Cell_size = [2]\<rparr>)]"
  by (simp add: quantification_def nuclei_row_def marker_row_def np_max_def np_unique_def
      ravel_def mean_position_def nucleus_size_def np_where_def pixels_of_def pixels_def
      nrows_def ncols_def px_def np_mean_def upto.simps df_index_def)

text \<open>
  Claim C6. The export loop runs \<^verbatim>\<open>for k in range(1, N)\<close> and so stops at nucleus
  \<open>N - 1\<close>: with two segmented nuclei the sheet has the row of nucleus 1 only, and the
  row of nucleus 2 (the one the marker is assigned to) is missing.
\<close>

theorem xlsx_dict_misses_last_nucleus:
  "xlsx_dict
     [(''DAPI'', \<lparr>Condition = ''NUCLEI'', Color = ''BLUE'', Number = 2, Shared_labels = [],
                  Mean_positions = [(0, 1 / 2), (2, 1 / 2)], Nuclei_size = [2, 2],
                  Cell_size = []\<rparr>),
      (''CD206'', \<lparr>Condition = ''M2'', Color = ''GREEN'', Number = 1, Shared_labels = [2],
                   Mean_positions = [(2, 1 / 2)], Nuclei_size = [2], Cell_size = [2]\<rparr>)] =
   Inr [(1, [Num 0, Num (1 / 2), Num 2, Str [], Str []])]"
  by (simp add: xlsx_dict_def xlsx_row_def tuple_get_def upto.simps)

section \<open>Arrays, masks and components\<close>

lemma nrows_tabulate [simp]: "nrows (tabulate h w f) = h"
  by (simp add: nrows_def tabulate_def)

lemma ncols_tabulate: "0 < h \<Longrightarrow> ncols (tabulate h w f) = w"
  by (simp add: ncols_def tabulate_def upt_conv_Cons)

lemma ncols_nrows0: "nrows M = 0 \<Longrightarrow> ncols M = 0"
  by (simp add: nrows_def ncols_def)

lemma ncols_tabulate_of [simp]: "ncols (tabulate (nrows M) (ncols M) f) = ncols M"
proof (cases "nrows M = 0")
  case True
  then show ?thesis by (simp add: nrows_def tabulate_def ncols_def)
next
  case False
  then show ?thesis by (simp add: ncols_tabulate)
qed

lemma rect_tabulate: "rect (tabulate h w f)"
  by (cases h) (auto simp add: rect_def tabulate_def ncols_def upt_conv_Cons simp del: upt_Suc)

lemma px_tabulate: "fst p < h \<Longrightarrow> snd p < w \<Longrightarrow> px (tabulate h w f) p = f p"
  by (simp add: px_def tabulate_def)

lemma set_pixels: "set (pixels h w) = {p. fst p < h \<and> snd p < w}"
  by (auto simp add: pixels_def)

lemma pixels_Suc: "pixels (Suc h) w = pixels h w @ map (\<lambda>j. (h, j)) [0..<w]"
  by (simp add: pixels_def)

lemma distinct_pixels: "distinct (pixels h w)"
proof (induction h)
  case 0
  then show ?case by (simp add: pixels_def)
next
  case (Suc h)
  then show ?case
    by (auto simp add: pixels_Suc distinct_map inj_on_def set_pixels)
qed

lemma set_pixels_of: "p \<in> set (pixels_of M) \<longleftrightarrow> in_range M p"
  by (simp add: pixels_of_def set_pixels in_range_def)

lemma matrix_eqI:
  assumes "rect A" "rect B" "nrows A = nrows B" "ncols A = ncols B"
    and "\<And>p. in_range A p \<Longrightarrow> px A p = px B p"
  shows "A = B"
proof (rule nth_equalityI)
  show "length A = length B" using assms(3) by (simp add: nrows_def)
next
  fix i assume i: "i < length A"
  then have iB: "i < length B" using assms(3) by (simp add: nrows_def)
  have la: "length (A ! i) = ncols A" using assms(1) i by (simp add: rect_def)
  have lb: "length (B ! i) = ncols B" using assms(2) iB by (simp add: rect_def)
  show "A ! i = B ! i"
  proof (rule nth_equalityI)
    show "length (A ! i) = length (B ! i)" using la lb assms(4) by simp
  next
    fix j assume "j < length (A ! i)"
    then have "in_range A (i, j)" using i la by (simp add: in_range_def nrows_def)
    from assms(5)[OF this] show "A ! i ! j = B ! i ! j" by (simp add: px_def)
  qed
qed


lemma in_range_tabulate: "in_range (tabulate (nrows M) (ncols M) f) p = in_range M p"
  by (simp add: in_range_def)

lemma px_tabulate_of: "in_range M p \<Longrightarrow> px (tabulate (nrows M) (ncols M) f) p = f p"
  by (simp add: in_range_def px_tabulate)

lemma shape_mask_set [simp]: "nrows (mask_set M m v) = nrows M" "ncols (mask_set M m v) = ncols M"
  by (simp_all add: mask_set_def)

lemma in_range_mask_set [simp]: "in_range (mask_set M m v) p = in_range M p"
  by (simp add: in_range_def)

lemma px_mask_set: "in_range M p \<Longrightarrow> px (mask_set M m v) p = (if m p then v else px M p)"
  by (simp add: mask_set_def px_tabulate_of)

lemma fold_mask_shape:
  "nrows (fold (\<lambda>i bm. if c i then mask_set bm (\<lambda>p. L p = i) (v i) else bm) is bm) = nrows bm \<and>
   ncols (fold (\<lambda>i bm. if c i then mask_set bm (\<lambda>p. L p = i) (v i) else bm) is bm) = ncols bm"
  by (induction "is" arbitrary: bm) auto

lemma fold_mask_px:
  assumes "distinct is" "in_range bm p"
  shows "px (fold (\<lambda>i bm. if c i then mask_set bm (\<lambda>p. L p = i) (v i) else bm) is bm) p =
         (if L p \<in> set is \<and> c (L p) then v (L p) else px bm p)"
  using assms
proof (induction "is" arbitrary: bm)
  case Nil
  then show ?case by simp
next
  case (Cons i "is")
  let ?bm = "if c i then mask_set bm (\<lambda>p. L p = i) (v i) else bm"
  have r: "in_range ?bm p" using Cons.prems by simp
  have d: "distinct is" "i \<notin> set is" using Cons.prems by auto
  have "px ?bm p = (if L p = i \<and> c i then v i else px bm p)"
    using Cons.prems by (simp add: px_mask_set)
  with Cons.IH[OF d(1) r] d(2) show ?case by auto
qed

lemma adjacent_sym: "adjacent full p q \<Longrightarrow> adjacent full q p"
  by (auto simp add: adjacent_def Let_def abs_minus_commute)

lemma set_edges:
  "set (edges full M) =
     {(p, q). p \<in> set (foreground M) \<and> q \<in> set (foreground M) \<and> adjacent full p q}"
  by (auto simp add: edges_def)

lemma sym_edges: "sym (set (edges full M))"
  by (auto simp add: set_edges sym_def dest: adjacent_sym)

lemma connected_refl [simp]: "connected full M p p"
  by (simp add: connected_def)

lemma connected_sym: "connected full M p q \<Longrightarrow> connected full M q p"
proof -
  assume c: "connected full M p q"
  have s: "sym ((set (edges full M))\<^sup>+)" by (rule sym_trancl[OF sym_edges])
  show "connected full M q p"
  proof (cases "p = q")
    case True
    then show ?thesis by simp
  next
    case False
    with c have "(p, q) \<in> (set (edges full M))\<^sup>+" by (simp add: connected_def)
    with s have "(q, p) \<in> (set (edges full M))\<^sup>+" by (rule symD)
    then show ?thesis by (simp add: connected_def)
  qed
qed

lemma connected_trans:
  "connected full M p q \<Longrightarrow> connected full M q r \<Longrightarrow> connected full M p r"
  unfolding connected_def by (metis trancl_trans)

lemma trancl_edges_fg:
  "(p, q) \<in> (set (edges full M))\<^sup>+ \<Longrightarrow> p \<in> set (foreground M) \<and> q \<in> set (foreground M)"
  by (induction rule: trancl.induct) (auto simp add: set_edges)

lemma component_eq:
  "connected full M p q \<Longrightarrow> component full M p = component full M q"
  unfolding component_def
  by (rule filter_cong) (auto intro: connected_trans connected_sym)

lemma self_in_component:
  "p \<in> set (foreground M) \<Longrightarrow> p \<in> set (component full M p)"
  by (simp add: component_def)

lemma hd_component:
  assumes "p \<in> set (foreground M)"
  shows "hd (component full M p) \<in> set (foreground M)" "connected full M p (hd (component full M p))"
proof -
  have "component full M p \<noteq> []" using self_in_component[OF assms, of full] by auto
  then have "hd (component full M p) \<in> set (component full M p)" by simp
  then show "hd (component full M p) \<in> set (foreground M)"
    "connected full M p (hd (component full M p))"
    by (simp_all add: component_def)
qed

lemma hd_component_seed:
  assumes "p \<in> set (foreground M)"
  shows "hd (component full M p) \<in> set (seeds full M)"
  using hd_component[OF assms, of full] component_eq[of full M p "hd (component full M p)"]
  by (simp add: seeds_def)

lemma list_index_less: "x \<in> set xs \<Longrightarrow> list_index xs x < length xs"
  by (induction xs) auto

lemma nth_list_index: "x \<in> set xs \<Longrightarrow> xs ! list_index xs x = x"
  by (induction xs) auto

lemma list_index_inj:
  "x \<in> set xs \<Longrightarrow> y \<in> set xs \<Longrightarrow> list_index xs x = list_index xs y \<Longrightarrow> x = y"
  by (metis nth_list_index)

lemma foreground_iff: "p \<in> set (foreground M) \<longleftrightarrow> in_range M p \<and> px M p \<noteq> 0"
  by (auto simp add: foreground_def set_pixels_of)

lemma shape_label [simp]:
  "nrows (fst (label full M)) = nrows M" "ncols (fst (label full M)) = ncols M"
  by (simp_all add: label_def)

lemma in_range_label [simp]: "in_range (fst (label full M)) p = in_range M p"
  by (simp add: in_range_def)

lemma pixels_of_label [simp]: "pixels_of (fst (label full M)) = pixels_of M"
  by (simp add: pixels_of_def)

lemma px_label:
  "in_range M p \<Longrightarrow>
   px (fst (label full M)) p =
     (if px M p = 0 then 0 else 1 + int (list_index (seeds full M) (hd (component full M p))))"
  by (simp add: label_def px_tabulate_of)

lemma label_zero_iff:
  "in_range M p \<Longrightarrow> px (fst (label full M)) p = 0 \<longleftrightarrow> px M p = 0"
  by (simp add: px_label)

lemma label_bounds:
  assumes "in_range M p" "px M p \<noteq> 0"
  shows "1 \<le> px (fst (label full M)) p" "px (fst (label full M)) p \<le> int (snd (label full M))"
proof -
  have fg: "p \<in> set (foreground M)" using assms by (simp add: foreground_iff)
  show "1 \<le> px (fst (label full M)) p" using assms by (simp add: px_label)
  have "list_index (seeds full M) (hd (component full M p)) < length (seeds full M)"
    by (rule list_index_less[OF hd_component_seed[OF fg]])
  then show "px (fst (label full M)) p \<le> int (snd (label full M))"
    using assms by (simp add: px_label) (simp add: label_def)
qed

lemma label_eq_iff:
  assumes "in_range M p" "px M p \<noteq> 0" "in_range M q" "px M q \<noteq> 0"
  shows "px (fst (label full M)) p = px (fst (label full M)) q \<longleftrightarrow> connected full M p q"
proof
  have fp: "p \<in> set (foreground M)" and fq: "q \<in> set (foreground M)"
    using assms by (simp_all add: foreground_iff)
  {
    assume "px (fst (label full M)) p = px (fst (label full M)) q"
    then have "list_index (seeds full M) (hd (component full M p)) =
               list_index (seeds full M) (hd (component full M q))"
      using assms by (simp add: px_label)
    then have "hd (component full M p) = hd (component full M q)"
      using list_index_inj[OF hd_component_seed[OF fp] hd_component_seed[OF fq]] by simp
    then show "connected full M p q"
      using hd_component(2)[OF fp, of full] hd_component(2)[OF fq, of full]
      by (metis connected_sym connected_trans)
  }
  {
    assume "connected full M p q"
    then have "component full M p = component full M q" by (rule component_eq)
    then show "px (fst (label full M)) p = px (fst (label full M)) q"
      using assms by (simp add: px_label)
  }
qed

lemma label_mask_component:
  assumes "in_range M p" "px M p \<noteq> 0"
  shows "filter (\<lambda>q. px (fst (label full M)) q = px (fst (label full M)) p) (pixels_of M) =
         component full M p"
proof -
  have "filter (\<lambda>q. px (fst (label full M)) q = px (fst (label full M)) p) (pixels_of M) =
        filter (\<lambda>q. px M q \<noteq> 0 \<and> connected full M p q) (pixels_of M)"
  proof (rule filter_cong[OF refl])
    fix q assume "q \<in> set (pixels_of M)"
    then have q: "in_range M q" by (simp add: set_pixels_of)
    show "(px (fst (label full M)) q = px (fst (label full M)) p) =
          (px M q \<noteq> 0 \<and> connected full M p q)"
    proof (cases "px M q = 0")
      case True
      then show ?thesis
        using label_zero_iff[OF q, of full] label_zero_iff[OF assms(1), of full] assms(2) by simp
    next
      case False
      then show ?thesis
        using label_eq_iff[OF assms q False, of full] by auto
    qed
  qed
  also have "\<dots> = component full M p"
    by (simp add: component_def foreground_def conj_commute)
  finally show ?thesis .
qed

lemma distinct_upto_int: "distinct [i..j]"
  by simp

lemma remove_small_islands_px:
  assumes "in_range M p"
  shows "px (remove_small_islands M t) p =
         (if px M p \<noteq> 0 \<and> int (length (component False M p)) < t then 0 else px M p)"
proof -
  let ?L = "fst (label False M)"
  let ?n = "snd (label False M)"
  let ?c = "\<lambda>i. int (length (filter (\<lambda>q. px ?L q = i) (pixels_of M))) < t"
  have r: "remove_small_islands M t =
           fold (\<lambda>i bm. if ?c i then mask_set bm (\<lambda>q. px ?L q = i) 0 else bm) [1..int ?n] M"
    by (simp add: remove_small_islands_def case_prod_beta Let_def)
  have e: "px (remove_small_islands M t) p =
           (if px ?L p \<in> set [1..int ?n] \<and> ?c (px ?L p) then 0 else px M p)"
    unfolding r by (rule fold_mask_px[OF distinct_upto_int assms])
  show ?thesis
  proof (cases "px M p = 0")
    case True
    then show ?thesis using e by simp
  next
    case False
    have "px ?L p \<in> set [1..int ?n]"
      using label_bounds[OF assms False, of False] by simp
    moreover have "?c (px ?L p) \<longleftrightarrow> int (length (component False M p)) < t"
      by (simp add: label_mask_component[OF assms False])
    ultimately show ?thesis using e False by simp
  qed
qed

lemma remove_small_islands_shape: "shape (remove_small_islands M t) = shape M"
proof -
  let ?L = "fst (label False M)"
  let ?n = "snd (label False M)"
  let ?c = "\<lambda>i. int (length (filter (\<lambda>q. px ?L q = i) (pixels_of M))) < t"
  have r: "remove_small_islands M t =
           fold (\<lambda>i bm. if ?c i then mask_set bm (\<lambda>q. px ?L q = i) 0 else bm) [1..int ?n] M"
    by (simp add: remove_small_islands_def case_prod_beta Let_def)
  show ?thesis unfolding r shape_def using fold_mask_shape by simp
qed

text \<open>
  Claim C4. \<open>remove_small_islands\<close> keeps the shape, sets to 0 every pixel of a
  4-connected component of nonzero pixels that has fewer than \<open>t\<close> pixels, and leaves
  every other pixel (of a component with at least \<open>t\<close> pixels, or background) as it was.
\<close>

theorem remove_small_islands_spec:
  "shape (remove_small_islands M t) = shape M \<and>
   (\<forall>p. in_range M p \<longrightarrow>
      px (remove_small_islands M t) p =
        (if px M p \<noteq> 0 \<and> int (length (component False M p)) < t then 0 else px M p))"
  using remove_small_islands_shape remove_small_islands_px by blast

lemma remove_small_islands_example:
  "remove_small_islands [[1, 1, 0], [0, 0, 5], [7, 0, 5]] 2 = [[1, 1, 0], [0, 0, 5], [0, 0, 5]]"
  by code_simp

theorem remove_small_islands_spec_witness:
  "in_range [[1, 1, 0], [0, 0, 5], [7, 0, 5::int]] (2, 0) \<and>
   px (remove_small_islands [[1, 1, 0], [0, 0, 5], [7, 0, 5]] 2) (2, 0) = 0 \<and>
   in_range [[1, 1, 0], [0, 0, 5], [7, 0, 5::int]] (0, 1) \<and>
   px (remove_small_islands [[1, 1, 0], [0, 0, 5], [7, 0, 5]] 2) (0, 1) = 1 \<and>
   in_range [[1, 1, 0], [0, 0, 5], [7, 0, 5::int]] (1, 1) \<and>
   px (remove_small_islands [[1, 1, 0], [0, 0, 5], [7, 0, 5]] 2) (1, 1) = 0"
  using remove_small_islands_spec[of "[[1, 1, 0], [0, 0, 5], [7, 0, 5]]" 2]
  by (simp add: remove_small_islands_example in_range_def nrows_def ncols_def px_def)

lemma np_unique_Nil: "np_unique xs = [] \<longleftrightarrow> xs = []"
  by (metis np_unique_def set_empty set_remdups set_sort)

lemma hd_np_unique: "xs \<noteq> [] \<Longrightarrow> hd (np_unique xs) = Min (set xs)"
proof -
  assume ne: "xs \<noteq> []"
  have s: "sorted (np_unique xs)" and e: "set (np_unique xs) = set xs"
    by (simp_all add: np_unique_def)
  from ne have n: "np_unique xs \<noteq> []" by (simp add: np_unique_Nil)
  then obtain y ys where y: "np_unique xs = y # ys" by (cases "np_unique xs") auto
  have "Min (set xs) = y"
  proof (rule Min_eqI)
    show "finite (set xs)" by simp
    show "y \<in> set xs" using e y by auto
    fix z assume "z \<in> set xs"
    then have "z \<in> set (y # ys)" using e y by simp
    then show "y \<le> z" using s y by auto
  qed
  then show ?thesis using y by simp
qed

lemma first_np_unique:
  "(case np_unique xs of [] \<Rightarrow> 0 | l # _ \<Rightarrow> l) = (if set xs = {} then 0 else Min (set xs))"
proof (cases "xs = []")
  case True
  then show ?thesis by (simp add: np_unique_def)
next
  case False
  then have "np_unique xs \<noteq> []" by (simp add: np_unique_Nil)
  then obtain y ys where y: "np_unique xs = y # ys" by (cases "np_unique xs") auto
  with hd_np_unique[OF False] False show ?thesis by simp
qed

text \<open>
  Claim C1, as the code has it. For \<open>B\<close> of the shape of \<open>A\<close>, \<open>assign_labels\<close>
  returns an array of that shape in which every pixel of a connected component of \<open>A\<close>
  carries the numerically smallest positive label of \<open>B\<close> found on the component's
  pixels, or 0 when there is none; background pixels of \<open>A\<close> carry 0.
\<close>

theorem assign_labels_smallest:
  assumes "map length B = map length A"
  shows "\<exists>C. assign_labels A B connectivity = Inr C \<and> shape C = shape A \<and>
           (\<forall>p. in_range A p \<longrightarrow>
              px C p =
                (if px A p = 0 then 0
                 else if {px B q |q. q \<in> set (component (connectivity = 2) A p) \<and> 0 < px B q} = {}
                 then 0
                 else Min {px B q |q. q \<in> set (component (connectivity = 2) A p) \<and> 0 < px B q}))"
proof -
  let ?full = "connectivity = 2"
  let ?L = "fst (label ?full A)"
  let ?n = "snd (label ?full A)"
  let ?ov = "\<lambda>i. map (px B) (filter (\<lambda>q. px ?L q = i \<and> 0 < px B q) (pixels_of A))"
  let ?v = "\<lambda>i. case np_unique (?ov i) of [] \<Rightarrow> 0 | l # _ \<Rightarrow> l"
  let ?Z = "tabulate (nrows A) (ncols A) (\<lambda>p. 0::int)"
  let ?C = "fold (\<lambda>i C. if True then mask_set C (\<lambda>q. px ?L q = i) (?v i) else C) [1..int ?n] ?Z"
  have r: "assign_labels A B connectivity = Inr ?C"
    using assms by (simp add: assign_labels_def case_prod_beta Let_def)
  have sh: "shape ?C = shape A"
    unfolding shape_def
    using fold_mask_shape[where c = "\<lambda>i. True" and L = "px ?L" and v = ?v and bm = ?Z]
    by simp
  have "px ?C p =
          (if px A p = 0 then 0
           else if {px B q |q. q \<in> set (component ?full A p) \<and> 0 < px B q} = {} then 0
           else Min {px B q |q. q \<in> set (component ?full A p) \<and> 0 < px B q})"
    if p: "in_range A p" for p
  proof -
    have r0: "in_range ?Z p" using p by (simp add: in_range_tabulate)
    have e: "px ?C p = (if px ?L p \<in> set [1..int ?n] \<and> True then ?v (px ?L p) else px ?Z p)"
      by (rule fold_mask_px[OF distinct_upto_int r0])
    have z: "px ?Z p = 0" using p by (simp add: px_tabulate_of)
    show ?thesis
    proof (cases "px A p = 0")
      case True
      then have "px ?L p = 0" using label_zero_iff[OF p, of ?full] by simp
      then show ?thesis using e z True by simp
    next
      case False
      have m: "px ?L p \<in> set [1..int ?n]"
        using label_bounds[OF p False, of ?full] by simp
      have "filter (\<lambda>q. px ?L q = px ?L p \<and> 0 < px B q) (pixels_of A) =
            filter (\<lambda>q. 0 < px B q) (filter (\<lambda>q. px ?L q = px ?L p) (pixels_of A))"
        by (simp add: conj_commute)
      also have "\<dots> = filter (\<lambda>q. 0 < px B q) (component ?full A p)"
        by (simp only: label_mask_component[OF p False])
      finally have "set (?ov (px ?L p)) =
                    {px B q |q. q \<in> set (component ?full A p) \<and> 0 < px B q}"
        by auto
      then have "?v (px ?L p) =
                 (if {px B q |q. q \<in> set (component ?full A p) \<and> 0 < px B q} = {} then 0
                  else Min {px B q |q. q \<in> set (component ?full A p) \<and> 0 < px B q})"
        by (simp only: first_np_unique)
      then show ?thesis using e m False by simp
    qed
  qed
  with r sh show ?thesis by blast
qed

lemma assign_labels_example:
  "assign_labels [[1, 0], [0, 1]] [[5, 0], [0, 3]] 2 = Inr [[3, 0], [0, 3]]"
  by code_simp

lemma assign_labels_example_cross:
  "assign_labels [[1, 0], [0, 1]] [[5, 0], [0, 3]] 1 = Inr [[5, 0], [0, 3]]"
  by code_simp

theorem assign_labels_smallest_witness:
  "map length [[5, 0], [0, 3::int]] = map length [[1, 0], [0, 1::int]] \<and>
   assign_labels [[1, 0], [0, 1]] [[5, 0], [0, 3]] 2 = Inr [[3, 0], [0, 3]]"
  using assign_labels_smallest[of "[[5, 0], [0, 3]]" "[[1, 0], [0, 1]]" 2]
  by (simp add: assign_labels_example)

text \<open>
  The claim as the specification states it fails. The mask \<open>[[1, 1]]\<close> is one component;
  on it \<open>B = [[2, 1]]\<close> shows label 2 first in scan order, and the code writes 1.
\<close>

theorem assign_labels_first_scan_counterexample:
  "assign_labels [[1, 1]] [[2, 1]] 1 = Inr [[1, 1]] \<and>
   component False [[1, 1]] (0, 0) = [(0, 0), (0, 1)] \<and>
   first_overlap_scan False [[1, 1]] [[2, 1]] (0, 0) = 2"
  by code_simp

end
